theory Spec2Isabelle
  imports Main "HOL-Library.Word" "HOL-Library.Signed_Division"
begin

section \<open>TCP Mario: module state\<close>

text \<open>
  The kernel types \<open>u32\<close> and \<open>s32\<close> are both 32-bit words; an \<open>s32\<close> is read
  through \<open>sint\<close> (two's complement), a \<open>u32\<close> through \<open>unat\<close>.
\<close>

type_synonym u32 = "32 word"
type_synonym s32 = "32 word"

definition SAMPLE_SIZE :: u32 where
  "SAMPLE_SIZE = 100"

definition INIT_FACTOR :: u32 where
  "INIT_FACTOR = 10"

text \<open>
  The file-scope variables of \<open>tcp_mario.c\<close>. They are shared by every socket that
  uses the module; \<open>rtt\<close> is the running sum of accepted samples (milliseconds) and
  \<open>rtt_cnt\<close> their number.
\<close>

record globals =
  bandwidth :: u32
  base_cwnd :: u32
  rtt :: u32
  rtt_cnt :: u32
  factor :: u32

text \<open>The one field of \<open>struct tcp_sock\<close> that the module touches.\<close>

record tcp_sock =
  snd_cwnd :: u32

text \<open>The values of the static variables when the module is loaded.\<close>

definition module_globals :: globals where
  "module_globals =
     \<lparr>bandwidth = 0, base_cwnd = 0, rtt = 0, rtt_cnt = 0, factor = INIT_FACTOR\<rparr>"

text \<open>
  The one operation of the module that traps: an unsigned division by zero raises the
  processor's divide error, and the call does not return.
\<close>

datatype fault = DivideByZero

section \<open>The congestion-control hooks\<close>

text \<open>
  \<open>tcp_mario_init\<close>: \<open>base_cwnd = bandwidth << 7; rtt = 0; rtt_cnt = 0;
  tp->snd_cwnd = base_cwnd\<close>.
\<close>

definition tcp_mario_init :: "globals \<Rightarrow> tcp_sock \<Rightarrow> globals \<times> tcp_sock" where
  "tcp_mario_init g tp =
     (let g1 = g\<lparr>base_cwnd := push_bit 7 (bandwidth g)\<rparr>;
          g2 = g1\<lparr>rtt := 0\<rparr>;
          g3 = g2\<lparr>rtt_cnt := 0\<rparr>
      in (g3, tp\<lparr>snd_cwnd := base_cwnd g3\<rparr>))"

text \<open>\<open>tcp_mario_cong_avoid\<close>: \<open>tp->snd_cwnd = base_cwnd\<close>; the three arguments are unused.\<close>

definition tcp_mario_cong_avoid ::
  "globals \<Rightarrow> tcp_sock \<Rightarrow> u32 \<Rightarrow> u32 \<Rightarrow> u32 \<Rightarrow> globals \<times> tcp_sock" where
  "tcp_mario_cong_avoid g tp ack acked in_flight = (g, tp\<lparr>snd_cwnd := base_cwnd g\<rparr>)"

text \<open>\<open>tcp_mario_ssthresh\<close>: \<open>tp->snd_cwnd = base_cwnd; return base_cwnd\<close>.\<close>

definition tcp_mario_ssthresh :: "globals \<Rightarrow> tcp_sock \<Rightarrow> (globals \<times> tcp_sock) \<times> u32" where
  "tcp_mario_ssthresh g tp = ((g, tp\<lparr>snd_cwnd := base_cwnd g\<rparr>), base_cwnd g)"

text \<open>\<open>tcp_mario_undo_cwnd\<close>: \<open>tp->snd_cwnd = base_cwnd; return tp->snd_cwnd\<close>.\<close>

definition tcp_mario_undo_cwnd :: "globals \<Rightarrow> tcp_sock \<Rightarrow> (globals \<times> tcp_sock) \<times> u32" where
  "tcp_mario_undo_cwnd g tp =
     (let tp' = tp\<lparr>snd_cwnd := base_cwnd g\<rparr> in ((g, tp'), snd_cwnd tp'))"

text \<open>
  The right-hand side of line 98, \<open>1 + bandwidth << 10 * avg_rtt/(factor * 1000)\<close>.
  In C the multiplicative operators bind tighter than \<open>+\<close>, and \<open>+\<close> tighter than
  \<open><<\<close>, so the expression is \<open>(1 + bandwidth) << ((10 * avg_rtt) / (factor * 1000))\<close>,
  every operation on \<open>u32\<close>.

  The shift amount is not checked. For an amount below 32 the shift is \<open>push_bit\<close> on
  32 bits. For an amount of 32 or more C does not say what the result is, and nothing
  traps: the shift instruction of the machine returns some value. Which value is a
  property of the machine, so the model takes it as the parameter \<open>wide\<close> (the
  result for the shifted value and the amount); \<open>x86_wide\<close> is the x86 instruction,
  which uses the low five bits of the amount.
\<close>

definition shl_u32 :: "(u32 \<Rightarrow> u32 \<Rightarrow> u32) \<Rightarrow> u32 \<Rightarrow> u32 \<Rightarrow> u32" where
  "shl_u32 wide x n = (if unat n < 32 then push_bit (unat n) x else wide x n)"

definition x86_wide :: "u32 \<Rightarrow> u32 \<Rightarrow> u32" where
  "x86_wide x n = push_bit (unat n mod 32) x"

definition cwnd_expr :: "(u32 \<Rightarrow> u32 \<Rightarrow> u32) \<Rightarrow> u32 \<Rightarrow> u32 \<Rightarrow> u32 \<Rightarrow> fault + u32" where
  "cwnd_expr wide bw avg_rtt f =
     (let d = f * 1000 in
      if d = 0 then Inl DivideByZero
      else Inr (shl_u32 wide (1 + bw) ((10 * avg_rtt) div d)))"

text \<open>
  \<open>tcp_mario_pkts_acked\<close>. The early return is taken when \<open>rtt_cnt > SAMPLE_SIZE\<close>;
  \<open>rtt_us /= 1000\<close> is the signed division of C, which truncates towards zero; the
  test \<open>rtt_cnt == SAMPLE_SIZE\<close> comes after, and outside, the block that accepts a sample.
  The socket is not touched.
\<close>

definition tcp_mario_pkts_acked ::
  "(u32 \<Rightarrow> u32 \<Rightarrow> u32) \<Rightarrow> globals \<Rightarrow> tcp_sock \<Rightarrow> u32 \<Rightarrow> s32 \<Rightarrow> fault + globals \<times> tcp_sock"
  where
  "tcp_mario_pkts_acked wide g tp num_acked rtt_us =
     (if rtt_cnt g > SAMPLE_SIZE then Inr (g, tp)
      else
        let rtt_ms = (word_of_int (sint rtt_us sdiv 1000) :: s32);
            g1 = (if 0 < sint rtt_ms \<and> sint rtt_ms < 300
                  then g\<lparr>rtt_cnt := rtt_cnt g + 1, rtt := rtt g + rtt_ms\<rparr>
                  else g)
        in if rtt_cnt g1 = SAMPLE_SIZE
           then (let avg_rtt = rtt g1 div rtt_cnt g1 in
                 case cwnd_expr wide (bandwidth g1) avg_rtt (factor g1) of
                   Inl e \<Rightarrow> Inl e
                 | Inr w \<Rightarrow> Inr (g1\<lparr>base_cwnd := w\<rparr>, tp))
           else Inr (g1, tp))"

section \<open>The sysctl table\<close>

text \<open>
  \<open>tcp_mario_table\<close> exposes \<open>bandwidth\<close> and \<open>factor\<close> under
  \<open>net/ipv4/tcp_mario\<close> with mode 0666 and \<open>proc_dointvec\<close>: a write stores the given
  32-bit value, with no check.
\<close>

definition sysctl_bandwidth :: "u32 \<Rightarrow> globals \<Rightarrow> globals" where
  "sysctl_bandwidth v g = g\<lparr>bandwidth := v\<rparr>"

definition sysctl_factor :: "u32 \<Rightarrow> globals \<Rightarrow> globals" where
  "sysctl_factor v g = g\<lparr>factor := v\<rparr>"

section \<open>Executions\<close>

text \<open>
  One call of a hook on the socket, or one write through the sysctl table. A run stops
  at the first fault, as the kernel does. The machine's wide shift is passed along.
\<close>

datatype event =
    Init
  | CongAvoid u32 u32 u32
  | Ssthresh
  | PktsAcked u32 s32
  | UndoCwnd
  | WriteBandwidth u32
  | WriteFactor u32

fun step ::
  "(u32 \<Rightarrow> u32 \<Rightarrow> u32) \<Rightarrow> event \<Rightarrow> globals \<times> tcp_sock \<Rightarrow> fault + globals \<times> tcp_sock"
  where
  "step wide Init (g, tp) = Inr (tcp_mario_init g tp)"
| "step wide (CongAvoid ack acked in_flight) (g, tp) =
     Inr (tcp_mario_cong_avoid g tp ack acked in_flight)"
| "step wide Ssthresh (g, tp) = Inr (fst (tcp_mario_ssthresh g tp))"
| "step wide (PktsAcked num_acked rtt_us) (g, tp) =
     tcp_mario_pkts_acked wide g tp num_acked rtt_us"
| "step wide UndoCwnd (g, tp) = Inr (fst (tcp_mario_undo_cwnd g tp))"
| "step wide (WriteBandwidth v) (g, tp) = Inr (sysctl_bandwidth v g, tp)"
| "step wide (WriteFactor v) (g, tp) = Inr (sysctl_factor v g, tp)"

fun run ::
  "(u32 \<Rightarrow> u32 \<Rightarrow> u32) \<Rightarrow> event list \<Rightarrow> globals \<times> tcp_sock \<Rightarrow> fault + globals \<times> tcp_sock"
  where
  "run wide [] s = Inr s"
| "run wide (e # es) s =
     (case step wide e s of Inl err \<Rightarrow> Inl err | Inr s' \<Rightarrow> run wide es s')"

section \<open>The estimator as the specification words it\<close>

text \<open>
  The formula of the specification's Window Estimator,
  \<open>target = 1 + (bandwidth << 10) * avg_rtt_ms / (scale_factor * 1000)\<close>, with its
  grouping and on \<open>u32\<close>. It is not part of the code: it is here to be compared with
  \<open>cwnd_expr\<close>.
\<close>

definition spec_compute_target :: "u32 \<Rightarrow> u32 \<Rightarrow> u32 \<Rightarrow> fault + u32" where
  "spec_compute_target bw avg_rtt_ms scale_factor =
     (if scale_factor * 1000 = 0 then Inl DivideByZero
      else Inr (1 + (push_bit 10 bw * avg_rtt_ms) div (scale_factor * 1000)))"

section \<open>Arithmetic of the hooks\<close>




section \<open>What the sampler does once the count has passed the batch size\<close>

lemma pkts_acked_past_batch:
  "SAMPLE_SIZE < rtt_cnt g \<Longrightarrow> tcp_mario_pkts_acked wide g tp n us = Inr (g, tp)"
  by (simp add: tcp_mario_pkts_acked_def)

text \<open>
  While the count is exactly \<open>SAMPLE_SIZE\<close> the early return is not taken: a rejected
  sample runs the recomputation again, on the current \<open>bandwidth\<close> and \<open>factor\<close>.
\<close>

lemma pkts_acked_at_batch_rejected:
  assumes "rtt_cnt g = SAMPLE_SIZE"
    and "\<not> (0 < sint (word_of_int (sint us sdiv 1000) :: s32)
            \<and> sint (word_of_int (sint us sdiv 1000) :: s32) < 300)"
  shows "tcp_mario_pkts_acked wide g tp n us =
           (case cwnd_expr wide (bandwidth g) (rtt g div SAMPLE_SIZE) (factor g) of
              Inl e \<Rightarrow> Inl e
            | Inr w \<Rightarrow> Inr (g\<lparr>base_cwnd := w\<rparr>, tp))"
  using assms by (auto simp: tcp_mario_pkts_acked_def Let_def)

text \<open>The bound on the count that the code does keep: 101, one more than the batch size.\<close>

lemma cnt_succ_bound:
  fixes c :: u32
  assumes "c \<le> 100"
  shows "c + 1 \<le> 101"
proof -
  have c: "unat c \<le> 100"
    using assms by (simp add: word_le_nat_alt)
  have "unat (c + 1) = (unat c + 1) mod 2 ^ 32"
    by (simp add: unat_word_ariths)
  also have "\<dots> = unat c + 1"
    using c by simp
  finally show ?thesis
    using c by (simp add: word_le_nat_alt)
qed


lemma pkts_acked_cnt_cases:
  assumes "tcp_mario_pkts_acked wide g tp n us = Inr (g', tp')"
  shows "rtt_cnt g' = rtt_cnt g \<or> (rtt_cnt g \<le> SAMPLE_SIZE \<and> rtt_cnt g' = rtt_cnt g + 1)"
proof (cases "SAMPLE_SIZE < rtt_cnt g")
  case True
  then show ?thesis
    using assms by (simp add: pkts_acked_past_batch)
next
  case False
  then have le: "rtt_cnt g \<le> SAMPLE_SIZE"
    by simp
  show ?thesis
  proof (cases "0 < sint (word_of_int (sint us sdiv 1000) :: s32)
        \<and> sint (word_of_int (sint us sdiv 1000) :: s32) < 300")
    case True
    with False assms have "rtt_cnt g' = rtt_cnt g + 1"
      by (simp add: tcp_mario_pkts_acked_def Let_def split: if_splits sum.splits) auto
    with le show ?thesis by simp
  next
    case rej: False
    with False assms have "rtt_cnt g' = rtt_cnt g"
      by (simp add: tcp_mario_pkts_acked_def Let_def split: if_splits sum.splits) auto
    then show ?thesis by simp
  qed
qed


lemma pkts_acked_cnt_bound:
  assumes "tcp_mario_pkts_acked wide g tp n us = Inr (g', tp')" "rtt_cnt g \<le> 101"
  shows "rtt_cnt g' \<le> 101"
proof -
  from assms(1) consider "rtt_cnt g' = rtt_cnt g"
    | "rtt_cnt g \<le> SAMPLE_SIZE" "rtt_cnt g' = rtt_cnt g + 1"
    using pkts_acked_cnt_cases by blast
  then show ?thesis
  proof cases
    case 1
    with assms(2) show ?thesis by simp
  next
    case 2
    then show ?thesis
      by (simp add: SAMPLE_SIZE_def cnt_succ_bound)
  qed
qed

lemma step_cnt_bound:
  assumes "step wide e s = Inr s'" "rtt_cnt (fst s) \<le> 101"
  shows "rtt_cnt (fst s') \<le> 101"
proof (cases s)
  case (Pair g tp)
  show ?thesis
  proof (cases e)
    case (PktsAcked n us)
    with Pair assms have "tcp_mario_pkts_acked wide g tp n us = Inr (fst s', snd s')"
      by simp
    from pkts_acked_cnt_bound [OF this] Pair assms(2) show ?thesis
      by simp
  qed (use Pair assms in \<open>auto simp: tcp_mario_init_def tcp_mario_cong_avoid_def
        tcp_mario_ssthresh_def tcp_mario_undo_cwnd_def sysctl_bandwidth_def
        sysctl_factor_def Let_def\<close>)
qed

lemma run_cnt_bound:
  "run wide es s = Inr s' \<Longrightarrow> rtt_cnt (fst s) \<le> 101 \<Longrightarrow> rtt_cnt (fst s') \<le> 101"
proof (induction es arbitrary: s)
  case Nil
  then show ?case by simp
next
  case (Cons e es)
  then show ?case
    by (auto split: sum.splits dest: step_cnt_bound)
qed

section \<open>Returning and trapping calls of the sampler\<close>

text \<open>
  A call of \<open>pkts_acked\<close> that returns hands back the socket it was given; the only
  call that does not return is the one that divides by \<open>factor * 1000 = 0\<close>.
\<close>

lemma pkts_acked_sock:
  assumes "tcp_mario_pkts_acked wide g tp n us = Inr s"
  shows "snd s = tp"
  using assms
  by (auto simp: tcp_mario_pkts_acked_def cwnd_expr_def Let_def split: if_splits)

lemma pkts_acked_fault:
  assumes "tcp_mario_pkts_acked wide g tp n us = Inl e"
  shows "e = DivideByZero \<and> factor g * 1000 = 0"
  using assms
  by (auto simp: tcp_mario_pkts_acked_def cwnd_expr_def Let_def split: if_splits)

text \<open>
  A shift amount of 32 or more does not stop the call. With \<open>factor\<close> 115964117 the
  product \<open>factor * 1000\<close> is 8 in \<open>u32\<close>, the batch average 299 gives the amount
  \<open>2990 / 8 = 373\<close>, and \<open>base_cwnd\<close> receives what the machine's shift returns.
\<close>

lemma wide_shift_run_returns:
  "run wide (WriteBandwidth 1 # WriteFactor 115964117 # Init
             # replicate 100 (PktsAcked 1 299999))
       (module_globals, \<lparr>snd_cwnd = 0\<rparr>)
   = Inr (\<lparr>bandwidth = 1, base_cwnd = wide 2 373, rtt = 29900, rtt_cnt = 100,
            factor = 115964117\<rparr>,
          \<lparr>snd_cwnd = 128\<rparr>)"
  by code_simp


section \<open>The specified formula\<close>

text \<open>
  For every factor whose product with 1000 is not 0 in \<open>u32\<close>, the formula with the
  specification's grouping is at least 1, and 1 when the bandwidth is 0: the divisor
  is even, so the quotient stays below \<open>2^31\<close> and adding 1 does not wrap.
\<close>

lemma spec_compute_target_ge_1:
  assumes "spec_compute_target bw avg f = Inr t"
  shows "1 \<le> t \<and> (bw = 0 \<longrightarrow> t = 1)"
proof -
  let ?d = "f * 1000"
  let ?N = "push_bit 10 bw * avg"
  have nz: "?d \<noteq> 0" and t: "t = 1 + ?N div ?d"
    using assms by (auto simp: spec_compute_target_def split: if_splits)
  have "even ?d"
    by simp
  then have "?d \<noteq> 1"
    by (metis odd_one)
  with nz have d2: "2 \<le> unat ?d"
    by (metis One_nat_def Suc_1 Suc_leI le_neq_implies_less unat_eq_zero unat_gt_0 unat_1 word_unat_eq_iff not_less_eq_eq)
  have "unat (?N div ?d) = unat ?N div unat ?d"
    by (simp add: unat_div)
  also have "\<dots> \<le> unat ?N div 2"
    using d2 by (simp add: div_le_mono2)
  also have "\<dots> < 2 ^ 31"
    using unsigned_less [of ?N, where ?'a = nat] by simp
  finally have x: "unat (?N div ?d) < 2 ^ 31" .
  have "unat (1 + ?N div ?d) = (1 + unat (?N div ?d)) mod 2 ^ 32"
    by (simp add: unat_word_ariths)
  also have "\<dots> = 1 + unat (?N div ?d)"
    using x by simp
  finally have "1 \<le> unat t"
    unfolding t by simp
  then have "1 \<le> t"
    by (simp add: word_le_nat_alt)
  moreover have "bw = 0 \<longrightarrow> t = 1"
    unfolding t by simp
  ultimately show ?thesis ..
qed


section \<open>Connection set-up and the window hooks\<close>

text \<open>
  C8. In every state and for every argument of the caller, \<open>cong_avoid\<close>, \<open>ssthresh\<close>
  and \<open>undo_cwnd\<close> each set the socket's \<open>snd_cwnd\<close> to the current \<open>base_cwnd\<close>,
  leave the module variables as they are, and the two that return a value return
  exactly \<open>base_cwnd\<close> (so never a smaller one).
\<close>

theorem hooks_assert_base_cwnd:
  "snd_cwnd (snd (tcp_mario_cong_avoid g tp ack acked in_flight)) = base_cwnd g
   \<and> fst (tcp_mario_cong_avoid g tp ack acked in_flight) = g
   \<and> snd_cwnd (snd (fst (tcp_mario_ssthresh g tp))) = base_cwnd g
   \<and> snd (tcp_mario_ssthresh g tp) = base_cwnd g
   \<and> fst (fst (tcp_mario_ssthresh g tp)) = g
   \<and> snd_cwnd (snd (fst (tcp_mario_undo_cwnd g tp))) = base_cwnd g
   \<and> snd (tcp_mario_undo_cwnd g tp) = base_cwnd g
   \<and> fst (fst (tcp_mario_undo_cwnd g tp)) = g
   \<and> base_cwnd g \<le> snd (tcp_mario_ssthresh g tp)
   \<and> base_cwnd g \<le> snd (tcp_mario_undo_cwnd g tp)"
  by (simp add: tcp_mario_cong_avoid_def tcp_mario_ssthresh_def tcp_mario_undo_cwnd_def
      Let_def)

text \<open>
  C9. For every configured bandwidth, \<open>init\<close> sets the socket's \<open>snd_cwnd\<close> to
  \<open>bandwidth * 128\<close> computed in \<open>u32\<close>, that is to \<open>(bandwidth * 128) mod 2^32\<close>.
\<close>

theorem init_sets_cwnd_to_bandwidth_times_128:
  "snd_cwnd (snd (tcp_mario_init g tp)) = bandwidth g * 128
   \<and> unat (snd_cwnd (snd (tcp_mario_init g tp))) = (unat (bandwidth g) * 128) mod 2 ^ 32"
  by (simp add: tcp_mario_init_def Let_def push_bit_eq_mult unat_word_ariths)


section \<open>The RTT sampler\<close>

text \<open>
  C2. The claim is that \<open>init\<close> resets the sample count and leaves the accumulated sum
  as it was. The code assigns \<open>rtt = 0\<close> as well as \<open>rtt_cnt = 0\<close>: from a state whose
  sum is 5000 the sum after \<open>init\<close> is 0.
\<close>

theorem init_changes_sum_example:
  "rtt (fst (tcp_mario_init
       \<lparr>bandwidth = 1000, base_cwnd = 1001, rtt = 5000, rtt_cnt = 100, factor = 10\<rparr>
       \<lparr>snd_cwnd = 1001\<rparr>))
   \<noteq> rtt \<lparr>bandwidth = 1000, base_cwnd = 1001, rtt = 5000, rtt_cnt = 100, factor = 10\<rparr>"
  by (simp add: tcp_mario_init_def Let_def)

text \<open>
  C2, as the code has it: for every prior state, \<open>init\<close> resets both the sample count
  and the accumulated sum to zero (and leaves \<open>bandwidth\<close> and \<open>factor\<close> alone).
\<close>

theorem init_resets_count_and_sum:
  "rtt_cnt (fst (tcp_mario_init g tp)) = 0
   \<and> rtt (fst (tcp_mario_init g tp)) = 0
   \<and> bandwidth (fst (tcp_mario_init g tp)) = bandwidth g
   \<and> factor (fst (tcp_mario_init g tp)) = factor g"
  by (simp add: tcp_mario_init_def Let_def)

text \<open>
  C3. The claim is that a sample delivered when the count is at or past 100 changes
  nothing. The early return of the code tests \<open>rtt_cnt > SAMPLE_SIZE\<close>, so at a count
  of exactly 100 an accepted sample of 50 ms is still added: the count becomes 101 and
  the sum grows from 5000 to 5050.
\<close>

theorem sample_at_count_100_is_added:
  "tcp_mario_pkts_acked wide
     \<lparr>bandwidth = 1000, base_cwnd = 1001, rtt = 5000, rtt_cnt = 100, factor = 10\<rparr>
     \<lparr>snd_cwnd = 1001\<rparr> 1 50000
   = Inr (\<lparr>bandwidth = 1000, base_cwnd = 1001, rtt = 5050, rtt_cnt = 101, factor = 10\<rparr>,
          \<lparr>snd_cwnd = 1001\<rparr>)"
  by code_simp

text \<open>
  C4. The claim is the invariant \<open>rtt_cnt \<le> 100\<close> over every reachable state. From
  the loaded module, \<open>init\<close> followed by 101 accepted samples of 50 ms ends with a
  count of 101.
\<close>

theorem count_reaches_101:
  "run wide (Init # replicate 101 (PktsAcked 1 50000))
       (module_globals, \<lparr>snd_cwnd = 0\<rparr>)
   = Inr (\<lparr>bandwidth = 0, base_cwnd = 1, rtt = 5050, rtt_cnt = 101, factor = 10\<rparr>,
          \<lparr>snd_cwnd = 0\<rparr>)"
  by code_simp

text \<open>
  C6. The claim is that after \<open>init\<close> the target is recomputed once, when the 100th
  accepted sample arrives, and not again before a re-init. After the 100th accepted
  sample the count stays at 100 until the next accepted one, and every rejected sample
  in between runs the recomputation again: with \<open>bandwidth\<close> rewritten from 1000 to 2000
  after the batch, a sample of -1 moves \<open>base_cwnd\<close> from 1001 to 2001.
\<close>

theorem rejected_sample_recomputes_again:
  "run wide (WriteBandwidth 1000 # Init # replicate 100 (PktsAcked 1 50000))
       (module_globals, \<lparr>snd_cwnd = 0\<rparr>)
   = Inr (\<lparr>bandwidth = 1000, base_cwnd = 1001, rtt = 5000, rtt_cnt = 100, factor = 10\<rparr>,
          \<lparr>snd_cwnd = 128000\<rparr>)
   \<and> run wide (WriteBandwidth 1000 # Init # replicate 100 (PktsAcked 1 50000)
           @ [WriteBandwidth 2000, PktsAcked 1 (- 1)])
       (module_globals, \<lparr>snd_cwnd = 0\<rparr>)
   = Inr (\<lparr>bandwidth = 2000, base_cwnd = 2001, rtt = 5000, rtt_cnt = 100, factor = 10\<rparr>,
          \<lparr>snd_cwnd = 128000\<rparr>)"
  by code_simp

text \<open>
  C10. For every state, every sample and every machine, a call of \<open>pkts_acked\<close>
  either returns, and then the socket is the one it was given, so \<open>snd_cwnd\<close> is
  unchanged, also when the call recomputes \<open>base_cwnd\<close> and whatever the shift amount
  is; or it is the call that divides by \<open>factor * 1000 = 0\<close>, which does not return.
  After a returning call the new \<open>base_cwnd\<close> reaches \<open>snd_cwnd\<close> at the next
  \<open>cong_avoid\<close>, \<open>ssthresh\<close> or \<open>undo_cwnd\<close>.
\<close>

theorem pkts_acked_keeps_snd_cwnd:
  "(\<exists>g'. tcp_mario_pkts_acked wide g tp n us = Inr (g', tp)
         \<and> snd_cwnd (snd (tcp_mario_cong_avoid g' tp ack acked in_flight)) = base_cwnd g'
         \<and> snd_cwnd (snd (fst (tcp_mario_ssthresh g' tp))) = base_cwnd g'
         \<and> snd_cwnd (snd (fst (tcp_mario_undo_cwnd g' tp))) = base_cwnd g')
   \<or> (tcp_mario_pkts_acked wide g tp n us = Inl DivideByZero \<and> factor g * 1000 = 0)"
proof (cases "tcp_mario_pkts_acked wide g tp n us")
  case (Inl e)
  then show ?thesis
    using pkts_acked_fault [OF Inl] by simp
next
  case (Inr s)
  then have "snd s = tp"
    by (rule pkts_acked_sock)
  then have "tcp_mario_pkts_acked wide g tp n us = Inr (fst s, tp)"
    using Inr by (cases s) simp
  then show ?thesis
    by (simp add: tcp_mario_cong_avoid_def tcp_mario_ssthresh_def tcp_mario_undo_cwnd_def
        Let_def)
qed

theorem pkts_acked_keeps_snd_cwnd_witness:
  "tcp_mario_pkts_acked x86_wide
     \<lparr>bandwidth = 1000, base_cwnd = 128000, rtt = 4950, rtt_cnt = 99, factor = 10\<rparr>
     \<lparr>snd_cwnd = 128000\<rparr> 1 50000
   = Inr (\<lparr>bandwidth = 1000, base_cwnd = 1001, rtt = 5000, rtt_cnt = 100, factor = 10\<rparr>,
          \<lparr>snd_cwnd = 128000\<rparr>)
   \<and> snd_cwnd (snd (tcp_mario_cong_avoid
        \<lparr>bandwidth = 1000, base_cwnd = 1001, rtt = 5000, rtt_cnt = 100, factor = 10\<rparr>
        \<lparr>snd_cwnd = 128000\<rparr> 0 0 0)) = 1001"
proof -
  have h: "tcp_mario_pkts_acked x86_wide
     \<lparr>bandwidth = 1000, base_cwnd = 128000, rtt = 4950, rtt_cnt = 99, factor = 10\<rparr>
     \<lparr>snd_cwnd = 128000\<rparr> 1 50000
   = Inr (\<lparr>bandwidth = 1000, base_cwnd = 1001, rtt = 5000, rtt_cnt = 100, factor = 10\<rparr>,
          \<lparr>snd_cwnd = 128000\<rparr>)"
    by code_simp
  show ?thesis
    using h pkts_acked_keeps_snd_cwnd
      [of x86_wide
          "\<lparr>bandwidth = 1000, base_cwnd = 128000, rtt = 4950, rtt_cnt = 99, factor = 10\<rparr>"
          "\<lparr>snd_cwnd = 128000\<rparr>" 1 50000 0 0 0]
    by auto
qed

section \<open>The window estimate\<close>

text \<open>
  C1. The claim is that a completed batch sets the target to
  \<open>1 + (bandwidth << 10) * avg_rtt / (factor * 1000)\<close>, which is 513 for bandwidth 1000,
  factor 10 and 100 samples of 50 ms. The code's expression has no parentheses and C
  groups it as \<open>(1 + bandwidth) << (10 * avg_rtt / (factor * 1000))\<close>: on that input the
  shift amount is \<open>500 / 10000 = 0\<close> and \<open>base_cwnd\<close> becomes 1001. (The claimed
  formula itself gives \<open>1 + 51200000 / 10000 = 5121\<close> there.)
\<close>

theorem batch_of_50ms_gives_1001:
  "run wide (WriteBandwidth 1000 # Init # replicate 100 (PktsAcked 1 50000))
       (module_globals, \<lparr>snd_cwnd = 0\<rparr>)
   = Inr (\<lparr>bandwidth = 1000, base_cwnd = 1001, rtt = 5000, rtt_cnt = 100, factor = 10\<rparr>,
          \<lparr>snd_cwnd = 128000\<rparr>)
   \<and> cwnd_expr wide 1000 50 10 = Inr 1001
   \<and> spec_compute_target 1000 50 10 = Inr 5121"
  by code_simp

text \<open>
  C5. There is an execution in which \<open>factor\<close> is 0 when a batch completes and the
  recomputation divides by zero: the operator writes 0 to \<open>factor\<close>, the connection is
  initialised, 99 samples of 50 ms are accepted, and the 100th faults.
\<close>

theorem zero_factor_divides_by_zero:
  "run wide (WriteFactor 0 # Init # replicate 99 (PktsAcked 1 50000))
       (module_globals, \<lparr>snd_cwnd = 0\<rparr>)
   = Inr (\<lparr>bandwidth = 0, base_cwnd = 0, rtt = 4950, rtt_cnt = 99, factor = 0\<rparr>,
          \<lparr>snd_cwnd = 0\<rparr>)
   \<and> run wide (WriteFactor 0 # Init # replicate 100 (PktsAcked 1 50000))
       (module_globals, \<lparr>snd_cwnd = 0\<rparr>)
   = Inl DivideByZero"
  by code_simp




end
